theory Spec2Isabelle
  imports Main "HOL-Library.Sublist"
begin

section \<open>The prerender middleware (handler.go, variables.go)\<close>

text \<open>
  The package wraps an application handler: a request that looks like it comes from a
  crawler is answered with the page fetched from a rendering service, every other request
  goes to the wrapped application.  The theory embeds \<^verbatim>\<open>handler.go\<close> function by
  function.  What the package calls in Go's standard library is either written out
  (string tests, the header map, the response writer, \<^verbatim>\<open>http.Error\<close>,
  \<^verbatim>\<open>url.QueryEscape\<close>) or taken from an environment record (URL parsing and
  printing, Unicode lower-casing, the network).
\<close>

subsection \<open>Strings\<close>

text \<open>\<^verbatim>\<open>strings.Contains\<close>, \<^verbatim>\<open>strings.HasPrefix\<close>, \<^verbatim>\<open>strings.HasSuffix\<close>;
  a Go string is a sequence of bytes, here a \<^typ>\<open>char list\<close>.\<close>

definition strings_Contains :: "string \<Rightarrow> string \<Rightarrow> bool" where
  "strings_Contains s substr = sublist substr s"

definition strings_HasPrefix :: "string \<Rightarrow> string \<Rightarrow> bool" where
  "strings_HasPrefix s pre = prefix pre s"

definition strings_HasSuffix :: "string \<Rightarrow> string \<Rightarrow> bool" where
  "strings_HasSuffix s suf = suffix suf s"

subsection \<open>Headers\<close>

text \<open>
  \<^verbatim>\<open>http.Header\<close> is \<^verbatim>\<open>map[string][]string\<close>; a nil map reads like the empty one.
  Every key the handler passes is already in canonical MIME form (\<^verbatim>\<open>User-Agent\<close>,
  \<^verbatim>\<open>X-Bufferbot\<close>, \<^verbatim>\<open>Cf-Visitor\<close>, ...) and so is every key of a header map filled
  by net/http, hence the canonicalisation inside Get, Set and Add is the identity here.
\<close>

type_synonym Header = "string \<rightharpoonup> string list"

definition Header_Get :: "Header \<Rightarrow> string \<Rightarrow> string" where
  "Header_Get h key = (case h key of None \<Rightarrow> [] | Some [] \<Rightarrow> [] | Some (v # _) \<Rightarrow> v)"

definition Header_Set :: "string \<Rightarrow> string \<Rightarrow> Header \<Rightarrow> Header" where
  "Header_Set key v h = h(key \<mapsto> [v])"

definition Header_Add :: "string \<Rightarrow> string \<Rightarrow> Header \<Rightarrow> Header" where
  "Header_Add key v h = h(key \<mapsto> (case h key of None \<Rightarrow> [] | Some vs \<Rightarrow> vs) @ [v])"

subsection \<open>Requests, responses and the response writer\<close>

record URL =
  Scheme :: string
  Opaque :: string
  User :: "(string \<times> string option) option"
  Host :: string
  Path :: string
  RawPath :: string
  ForceQuery :: bool
  RawQuery :: string
  Fragment :: string

record Request =
  Method :: string
  req_URL :: URL
  req_Header :: Header
  req_Host :: string
  RequestURI :: string

text \<open>\<^verbatim>\<open>req.UserAgent()\<close> is \<^verbatim>\<open>req.Header.Get("User-Agent")\<close>.\<close>

definition UserAgent :: "Request \<Rightarrow> string" where
  "UserAgent req = Header_Get (req_Header req) ''User-Agent''"

text \<open>The request sent to the rendering service.\<close>

record OutRequest =
  out_Method :: string
  out_URL :: URL
  out_Header :: Header

text \<open>
  A response body is a stream: \<^verbatim>\<open>ioutil.ReadAll\<close> returns the bytes it could read
  and the error that stopped it, if any.
\<close>

record Body =
  content :: string
  readError :: "string option"

text \<open>
  The header of a response is only ranged over.  Go visits the entries of a map in an
  order it does not specify: the list is the entries in the order of that visit.
\<close>

record Response =
  StatusCode :: int
  resp_Header :: "(string \<times> string list) list"
  resp_Body :: Body

text \<open>
  \<^verbatim>\<open>http.ResponseWriter\<close>, by its documented contract: \<^verbatim>\<open>Header()\<close> is a map the
  handler may change; the first \<^verbatim>\<open>WriteHeader\<close> sends the status line together with
  the header map as it is at that moment (``changing the header map after a call to
  WriteHeader (or Write) has no effect''), a later \<^verbatim>\<open>WriteHeader\<close> is ignored; a
  \<^verbatim>\<open>Write\<close> before any \<^verbatim>\<open>WriteHeader\<close> sends status 200 first.  \<open>status\<close>,
  \<open>sentHeader\<close> and \<open>written\<close> are what the handler has sent to the client.  The
  fields a server adds by itself (\<^verbatim>\<open>Date\<close>, \<^verbatim>\<open>Content-Length\<close>, a
  \<^verbatim>\<open>Content-Type\<close> guessed from the body when the handler sent none) are not modelled.
\<close>

record ResponseWriter =
  header :: Header
  wroteHeader :: bool
  status :: int
  sentHeader :: Header
  written :: string

definition WriteHeader :: "int \<Rightarrow> ResponseWriter \<Rightarrow> ResponseWriter" where
  "WriteHeader code w =
     (if wroteHeader w then w
      else w\<lparr>wroteHeader := True, status := code, sentHeader := header w\<rparr>)"

definition Write :: "string \<Rightarrow> ResponseWriter \<Rightarrow> ResponseWriter" where
  "Write bytes w =
     (let w = (if wroteHeader w then w else WriteHeader 200 w)
      in w\<lparr>written := written w @ bytes\<rparr>)"

text \<open>
  \<^verbatim>\<open>http.Error(w, error, code)\<close>: two header fields are set, the status is written and
  the message is printed to the writer with \<^verbatim>\<open>fmt.Fprintln\<close>, that is followed by a
  newline.
\<close>

definition http_Error :: "ResponseWriter \<Rightarrow> string \<Rightarrow> int \<Rightarrow> ResponseWriter" where
  "http_Error w msg code =
     (let w = w\<lparr>header := Header_Set ''Content-Type'' ''text/plain; charset=utf-8'' (header w)\<rparr>;
          w = w\<lparr>header := Header_Set ''X-Content-Type-Options'' ''nosniff'' (header w)\<rparr>;
          w = WriteHeader code w
      in Write (msg @ [CHR 0x0A]) w)"

definition StatusInternalServerError :: int where
  "StatusInternalServerError = 500"

subsection \<open>The environment\<close>

text \<open>
  The functions of the standard library and of the process that the package calls and
  that are not written out above.  \<open>Query\<close> is \<^verbatim>\<open>(*url.URL).Query\<close> (a
  \<^verbatim>\<open>url.Values\<close> has the shape of a header map), \<open>ParseRequestURI\<close> and \<open>Parse\<close> are
  those of net/url with the error's message on the left, \<open>URL_String\<close> is
  \<^verbatim>\<open>(*url.URL).String\<close>, \<open>BasicAuth\<close> gives the value of the Authorization header that
  \<^verbatim>\<open>SetBasicAuth\<close> sets, \<open>Do\<close> is the round trip of \<^verbatim>\<open>http.Client.Do\<close> with a
  \<^verbatim>\<open>CheckRedirect\<close> that always fails: the response (nil is \<open>None\<close>) and the message
  of the error (nil is \<open>None\<close>).
\<close>

record Env =
  ToLower :: "string \<Rightarrow> string"
  Query :: "URL \<Rightarrow> Header"
  ParseRequestURI :: "string \<Rightarrow> string + URL"
  Parse :: "string \<Rightarrow> string + URL"
  URL_String :: "URL \<Rightarrow> string"
  BasicAuth :: "string \<Rightarrow> string \<Rightarrow> string"
  Do :: "OutRequest \<Rightarrow> Response option \<times> string option"
  Getenv :: "string \<Rightarrow> string"
  DefaultServeMux :: "ResponseWriter \<Rightarrow> Request \<Rightarrow> ResponseWriter"

subsection \<open>variables.go\<close>

definition const_prerenderServiceURL :: string where
  "const_prerenderServiceURL = ''http://service.prerender.io/''"

definition x_PRERENDER_TOKEN :: string where
  "x_PRERENDER_TOKEN = ''X-Prerender-Token''"

definition crawlerUserAgents :: "string list" where
  "crawlerUserAgents =
    [''baiduspider'', ''bufferbot'', ''developers.google.com/+/web/snippet'', ''embedly'',
     ''facebookexternalhit'', ''linkedinbot'', ''outbrain'', ''pinterest'',
     ''quora link preview'', ''rogerbot'', ''showyoubot'', ''slackbot'', ''twitterbot'']"

definition extensionsToIgnore :: "string list" where
  "extensionsToIgnore =
    [''.ai'', ''.avi'', ''.css'', ''.dat'', ''.dmg'', ''.doc'', ''.doc'', ''.exe'', ''.flv'',
     ''.gif'', ''.ico'', ''.iso'', ''.jpeg'', ''.jpg'', ''.js'', ''.less'', ''.m4a'', ''.m4v'',
     ''.mov'', ''.mp3'', ''.mp4'', ''.mpeg'', ''.mpg'', ''.pdf'', ''.png'', ''.ppt'', ''.psd'',
     ''.rar'', ''.rss'', ''.swf'', ''.tif'', ''.torrent'', ''.txt'', ''.wav'', ''.wmv'',
     ''.xls'', ''.xml'', ''.zip'']"

subsection \<open>The handler and its options\<close>

text \<open>A \<^verbatim>\<open>*log.Logger\<close> is a reference; nil is \<open>None\<close>.  An \<^verbatim>\<open>http.Handler\<close> acts on
  the response writer; the nil interface is \<open>None\<close>.\<close>

type_synonym Logger = nat

type_synonym http_Handler = "ResponseWriter \<Rightarrow> Request \<Rightarrow> ResponseWriter"

record handler =
  sub :: "http_Handler option"
  botUserAgents :: "string list"
  ignoredExtension :: "string list"
  prerenderServiceURL :: string
  prerenderToken :: string
  prerenderUsername :: string
  prerenderPassword :: string
  log :: "Logger option"

text \<open>An \<^verbatim>\<open>Option\<close> is a closure over the arguments of the function that made it; the
  datatype names the closure, \<open>applyOption\<close> runs it.\<close>

datatype Option =
    Bots "string list"
  | IgnoredExtensions "string list"
  | ServiceURL string
  | ServiceToken string
  | ServiceAuth string string
  | Logger "Logger option"

fun applyOption :: "Option \<Rightarrow> handler \<Rightarrow> handler" where
  "applyOption (Bots userAgents) h = h\<lparr>botUserAgents := userAgents\<rparr>"
| "applyOption (IgnoredExtensions exts) h = h\<lparr>ignoredExtension := exts\<rparr>"
| "applyOption (ServiceURL url) h = h\<lparr>prerenderServiceURL := url\<rparr>"
| "applyOption (ServiceToken token) h = h\<lparr>prerenderToken := token\<rparr>"
| "applyOption (ServiceAuth username password) h =
     h\<lparr>prerenderUsername := username, prerenderPassword := password\<rparr>"
| "applyOption (Logger logger) h = h\<lparr>log := logger\<rparr>"

definition Handler :: "Env \<Rightarrow> http_Handler option \<Rightarrow> Option list \<Rightarrow> handler" where
  "Handler env app options =
     (let app = (case app of None \<Rightarrow> Some (DefaultServeMux env) | Some a \<Rightarrow> Some a);
          h = \<lparr>sub = app, botUserAgents = [], ignoredExtension = [],
               prerenderServiceURL = [], prerenderToken = [], prerenderUsername = [],
               prerenderPassword = [], log = None\<rparr>;
          h = applyOption (Bots crawlerUserAgents) h;
          h = applyOption (IgnoredExtensions extensionsToIgnore) h;
          h = applyOption (ServiceURL const_prerenderServiceURL) h;
          h = (let v = Getenv env ''PRERENDER_SERVICE_URL''
               in if v \<noteq> [] then applyOption (ServiceURL v) h else h);
          h = (let v = Getenv env ''PRERENDER_TOKEN''
               in if v \<noteq> [] then applyOption (ServiceToken v) h else h);
          h = (let u = Getenv env ''PRERENDER_USERNAME''; p = Getenv env ''PRERENDER_PASSWORD''
               in if u \<noteq> [] \<or> p \<noteq> [] then applyOption (ServiceAuth u p) h else h)
      in fold applyOption options h)"

subsection \<open>The classifier\<close>

primrec isBot_loop :: "string \<Rightarrow> string list \<Rightarrow> bool" where
  "isBot_loop ua [] = False"
| "isBot_loop ua (name # names) =
     (if strings_Contains ua name then True else isBot_loop ua names)"

definition isBot :: "Env \<Rightarrow> handler \<Rightarrow> string \<Rightarrow> bool" where
  "isBot env h ua = isBot_loop (ToLower env ua) (botUserAgents h)"

primrec containsIgnoredExtension_loop :: "string \<Rightarrow> string list \<Rightarrow> bool" where
  "containsIgnoredExtension_loop path [] = False"
| "containsIgnoredExtension_loop path (name # names) =
     (if strings_Contains path name then True else containsIgnoredExtension_loop path names)"

definition containsIgnoredExtension :: "Env \<Rightarrow> handler \<Rightarrow> string \<Rightarrow> bool" where
  "containsIgnoredExtension env h path =
     containsIgnoredExtension_loop (ToLower env path) (ignoredExtension h)"

definition X_BUFFERBOT :: string where
  "X_BUFFERBOT = ''X-Bufferbot''"

definition ESCAPED_FRAGMENT :: string where
  "ESCAPED_FRAGMENT = ''_escaped_fragment_''"

definition shouldShowPrerenderedPage :: "Env \<Rightarrow> handler \<Rightarrow> Request \<Rightarrow> bool" where
  "shouldShowPrerenderedPage env h req =
     (let userAgent = UserAgent req;
          bufferAgent = Header_Get (req_Header req) X_BUFFERBOT;
          isRequestingPrerenderedPage = False
      in if userAgent = [] then False
         else if Method req \<noteq> ''GET'' then False
         else
           let isRequestingPrerenderedPage =
                 (case Query env (req_URL req) ESCAPED_FRAGMENT of
                    Some q \<Rightarrow> if length q > 0 then True else isRequestingPrerenderedPage
                  | None \<Rightarrow> isRequestingPrerenderedPage);
               isRequestingPrerenderedPage =
                 (if isBot env h userAgent then True else isRequestingPrerenderedPage);
               isRequestingPrerenderedPage =
                 (if bufferAgent \<noteq> [] then True else isRequestingPrerenderedPage)
           in if containsIgnoredExtension env h (Path (req_URL req)) then False
              else isRequestingPrerenderedPage)"

subsection \<open>The URL builder\<close>

text \<open>
  \<^verbatim>\<open>url.QueryEscape\<close>: letters, digits and \<^verbatim>\<open>-_.~\<close> stay, a space becomes
  \<^verbatim>\<open>+\<close>, every other byte becomes \<^verbatim>\<open>%XX\<close> in upper-case hexadecimal.
\<close>

definition shouldEscape :: "char \<Rightarrow> bool" where
  "shouldEscape c =
     (let n = (of_char c :: nat)
      in if (97 \<le> n \<and> n \<le> 122) \<or> (65 \<le> n \<and> n \<le> 90) \<or> (48 \<le> n \<and> n \<le> 57) then False
         else if c \<in> set ''-_.~'' then False
         else True)"

definition upperhex :: "nat \<Rightarrow> char" where
  "upperhex n = ''0123456789ABCDEF'' ! n"

primrec escape :: "string \<Rightarrow> string" where
  "escape [] = []"
| "escape (c # s) =
     (if c = CHR '' '' then CHR ''+'' # escape s
      else if shouldEscape c
        then CHR ''%'' # upperhex (of_char c div 16) # upperhex (of_char c mod 16) # escape s
      else c # escape s)"

definition QueryEscape :: "string \<Rightarrow> string" where
  "QueryEscape s = escape s"

definition CF_VISITOR :: string where
  "CF_VISITOR = ''Cf-Visitor''"

definition CF_HTTPS :: string where
  \<open>CF_HTTPS = ''"scheme":"https"''\<close>

definition X_FORWARDED_PROTO :: string where
  "X_FORWARDED_PROTO = ''X-Forwarded-Proto''"

definition X_FORWARDED_HTTPS :: string where
  "X_FORWARDED_HTTPS = ''https,''"

definition HTTP_HOST :: string where
  "HTTP_HOST = ''Host''"

text \<open>
  \<^verbatim>\<open>buildApiUrl\<close> in two parts.  \<open>buildApiUrl_u\<close> is lines 264 to 286: the value of
  the local \<^verbatim>\<open>u\<close> once host and scheme are set, or the error returned before that.
  \<open>buildApiUrl\<close> is the whole function: lines 288 to 294 applied to that value.
\<close>

definition buildApiUrl_u :: "Env \<Rightarrow> Request \<Rightarrow> string + URL" where
  "buildApiUrl_u env req =
     (case ParseRequestURI env (RequestURI req) of
        Inl err \<Rightarrow> Inl err
      | Inr u \<Rightarrow>
          let u = u\<lparr>Host := Header_Get (req_Header req) HTTP_HOST\<rparr>;
              u = (if Host u = [] then u\<lparr>Host := Host (req_URL req)\<rparr> else u);
              u = (if Host u = [] then u\<lparr>Host := req_Host req\<rparr> else u)
          in if Host u = [] then Inl ''undetectable host''
             else
               let u = u\<lparr>Scheme := ''http''\<rparr>;
                   u = (if strings_Contains (Header_Get (req_Header req) CF_VISITOR) CF_HTTPS
                          then u\<lparr>Scheme := ''https''\<rparr>
                        else if strings_HasPrefix (Header_Get (req_Header req) X_FORWARDED_PROTO)
                                  X_FORWARDED_HTTPS
                          then u\<lparr>Scheme := ''https''\<rparr>
                        else u)
               in Inr u)"

definition buildApiUrl :: "Env \<Rightarrow> handler \<Rightarrow> Request \<Rightarrow> string + string" where
  "buildApiUrl env h req =
     (case buildApiUrl_u env req of
        Inl err \<Rightarrow> Inl err
      | Inr u \<Rightarrow>
          let rawurl = prerenderServiceURL h;
              rawurl = (if \<not> strings_HasSuffix rawurl ''/'' then rawurl @ ''/'' else rawurl);
              rawurl = rawurl @ QueryEscape (URL_String env u)
          in Inr rawurl)"

subsection \<open>The relay\<close>

text \<open>
  What a request leaves behind: the response writer, the calls of \<^verbatim>\<open>Printf\<close> on the
  logger (format and argument), the bytes printed to standard output, and whether the
  body of the rendering service's response was closed by the handler.
\<close>

datatype LogArg = ArgURL URL | ArgError string

record World =
  rw :: ResponseWriter
  logs :: "(string \<times> LogArg) list"
  stdout :: string
  bodyClosed :: bool

datatype panic = NilPointerDereference

definition logf :: "handler \<Rightarrow> string \<Rightarrow> LogArg \<Rightarrow> World \<Rightarrow> World" where
  "logf h format arg w = (if log h \<noteq> None then w\<lparr>logs := logs w @ [(format, arg)]\<rparr> else w)"

text \<open>\<^verbatim>\<open>http.NewRequest\<close> with a valid method and no body: it fails when the URL does not
  parse.\<close>

definition http_NewRequest :: "Env \<Rightarrow> string \<Rightarrow> string \<Rightarrow> string + OutRequest" where
  "http_NewRequest env method rawurl =
     (case Parse env rawurl of
        Inl err \<Rightarrow> Inl err
      | Inr u \<Rightarrow> Inr \<lparr>out_Method = method, out_URL = u, out_Header = Map.empty\<rparr>)"

text \<open>Lines 188 to 196: the header of the request to the rendering service.\<close>

definition prerenderRequest :: "Env \<Rightarrow> handler \<Rightarrow> Request \<Rightarrow> OutRequest \<Rightarrow> OutRequest" where
  "prerenderRequest env h req1 req2 =
     (let req2 = req2\<lparr>out_Header := Header_Set ''User-Agent'' (UserAgent req1) (out_Header req2)\<rparr>;
          req2 = (if prerenderToken h \<noteq> []
                  then req2\<lparr>out_Header :=
                         Header_Set x_PRERENDER_TOKEN (prerenderToken h) (out_Header req2)\<rparr>
                  else req2);
          req2 = (if prerenderUsername h \<noteq> [] \<or> prerenderPassword h \<noteq> []
                  then req2\<lparr>out_Header :=
                         Header_Set ''Authorization''
                           (BasicAuth env (prerenderUsername h) (prerenderPassword h))
                           (out_Header req2)\<rparr>
                  else req2)
      in req2)"

text \<open>Lines 206 to 246: what is written to the client from the outcome of
  \<^verbatim>\<open>httpClient.Do\<close>.\<close>

definition relay :: "handler \<Rightarrow> World \<Rightarrow> Response option \<times> string option \<Rightarrow> panic + World" where
  "relay h w outcome =
     (case outcome of (resp, err) \<Rightarrow>
        (case err of
           Some e \<Rightarrow>
             if strings_HasSuffix e ''Redirect'' = False then
               let w = logf h ''prerender error: %s'' (ArgError e) w;
                   w = w\<lparr>rw := http_Error (rw w) ''Internal server error'' StatusInternalServerError\<rparr>
               in Inr w
             else
               (case resp of
                  None \<Rightarrow> Inl NilPointerDereference
                | Some resp \<Rightarrow>
                    let hdr = fold (\<lambda>(key, values) hdr.
                                     fold (\<lambda>value hdr. Header_Set key value hdr) values hdr)
                                  (resp_Header resp) (header (rw w));
                        w = w\<lparr>rw := (rw w)\<lparr>header := hdr\<rparr>\<rparr>;
                        w = w\<lparr>rw := WriteHeader 301 (rw w)\<rparr>;
                        w = w\<lparr>rw := Write [] (rw w)\<rparr>
                    in Inr w)
         | None \<Rightarrow>
             (case resp of
                None \<Rightarrow> Inl NilPointerDereference
              | Some resp \<Rightarrow>
                  let w = w\<lparr>rw := WriteHeader (StatusCode resp) (rw w)\<rparr>;
                      hdr = fold (\<lambda>(key, values) hdr.
                                   fold (\<lambda>value hdr. Header_Add key value hdr) values hdr)
                                (resp_Header resp) (header (rw w));
                      w = w\<lparr>rw := (rw w)\<lparr>header := hdr\<rparr>\<rparr>;
                      w = w\<lparr>bodyClosed := True\<rparr>
                  in (case readError (resp_Body resp) of
                        Some e \<Rightarrow>
                          let w = logf h ''prerender error: %s'' (ArgError e) w;
                              w = w\<lparr>stdout := stdout w @ e @ [CHR 0x0A]\<rparr>;
                              w = w\<lparr>rw := http_Error (rw w) ''Internal server error''
                                             StatusInternalServerError\<rparr>
                          in Inr w
                      | None \<Rightarrow> Inr (w\<lparr>rw := Write (content (resp_Body resp)) (rw w)\<rparr>)))))"

definition getPrerenderedPage :: "Env \<Rightarrow> handler \<Rightarrow> World \<Rightarrow> Request \<Rightarrow> panic + World" where
  "getPrerenderedPage env h w req1 =
     (let w = logf h ''prerender: %q'' (ArgURL (req_URL req1)) w
      in case buildApiUrl env h req1 of
           Inl err \<Rightarrow>
             let w = logf h ''prerender error: %s'' (ArgError err) w;
                 w = w\<lparr>rw := http_Error (rw w) ''Internal server error'' StatusInternalServerError\<rparr>
             in Inr w
         | Inr rawurl \<Rightarrow>
             (case http_NewRequest env ''GET'' rawurl of
                Inl err \<Rightarrow>
                  let w = logf h ''prerender error: %s'' (ArgError err) w;
                      w = w\<lparr>rw := http_Error (rw w) ''Internal server error''
                                     StatusInternalServerError\<rparr>
                  in Inr w
              | Inr req2 \<Rightarrow> relay h w (Do env (prerenderRequest env h req1 req2))))"

subsection \<open>Dispatch\<close>

definition ServeHTTP :: "Env \<Rightarrow> handler \<Rightarrow> World \<Rightarrow> Request \<Rightarrow> panic + World" where
  "ServeHTTP env h w req =
     (if \<not> shouldShowPrerenderedPage env h req then
        (case sub h of
           None \<Rightarrow> Inl NilPointerDereference
         | Some app \<Rightarrow> Inr (w\<lparr>rw := app (rw w) req\<rparr>))
      else getPrerenderedPage env h w req)"

section \<open>Observations and the wording of the specification\<close>

text \<open>
  What the client receives from a run of the handler: the status, the values sent for the
  header names asked about, and the body.  \<open>None\<close> when the run panicked or no status
  line was written.
\<close>

definition clientResponse ::
  "panic + World \<Rightarrow> string list \<Rightarrow> (int \<times> (string \<times> string list option) list \<times> string) option"
where
  "clientResponse r keys =
     (case r of
        Inl p \<Rightarrow> None
      | Inr w \<Rightarrow>
          if wroteHeader (rw w)
          then Some (status (rw w), map (\<lambda>k. (k, sentHeader (rw w) k)) keys, written (rw w))
          else None)"

text \<open>
  The host of the reconstructed URL in the words of the specification: the \<^verbatim>\<open>Host\<close>
  header if it is not empty, otherwise the host of the request's URL if it is not empty,
  otherwise the host field of the request.  It is compared with what \<open>buildApiUrl_u\<close>
  computes.
\<close>

definition spec_host :: "Request \<Rightarrow> string" where
  "spec_host req =
     (if Header_Get (req_Header req) ''Host'' \<noteq> [] then Header_Get (req_Header req) ''Host''
      else if Host (req_URL req) \<noteq> [] then Host (req_URL req)
      else req_Host req)"

text \<open>
  The two loops that copy the header of the rendering service's response, lines 213 to 217
  (with \<^verbatim>\<open>Set\<close>) and lines 228 to 232 (with \<^verbatim>\<open>Add\<close>), as they stand in \<open>relay\<close>.
\<close>

abbreviation copySet :: "(string \<times> string list) list \<Rightarrow> Header \<Rightarrow> Header" where
  "copySet entries hdr0 \<equiv>
     fold (\<lambda>(key, values) hdr. fold (\<lambda>value hdr. Header_Set key value hdr) values hdr) entries hdr0"

abbreviation copyAdd :: "(string \<times> string list) list \<Rightarrow> Header \<Rightarrow> Header" where
  "copyAdd entries hdr0 \<equiv>
     fold (\<lambda>(key, values) hdr. fold (\<lambda>value hdr. Header_Add key value hdr) values hdr) entries hdr0"

section \<open>Examples\<close>

text \<open>
  A concrete environment, handler and requests at which the model is evaluated.  The
  environment is a table: it gives what Go's functions give at the arguments the examples
  pass (lower-casing of ASCII, the query and the parse of the request URIs used, the
  printing of a URL that has a scheme, a host and a plain path only) and is not meant
  beyond them.  Its network answers every request with the outcome it is given.
\<close>

definition asciiLower :: "char \<Rightarrow> char" where
  "asciiLower c =
     (case map_of (zip ''ABCDEFGHIJKLMNOPQRSTUVWXYZ'' ''abcdefghijklmnopqrstuvwxyz'') c of
        Some l \<Rightarrow> l | None \<Rightarrow> c)"

definition pathURL :: "string \<Rightarrow> string \<Rightarrow> URL" where
  "pathURL p q = \<lparr>Scheme = [], Opaque = [], User = None, Host = [], Path = p, RawPath = [],
                  ForceQuery = False, RawQuery = q, Fragment = []\<rparr>"

definition exampleQuery :: "URL \<Rightarrow> Header" where
  "exampleQuery u =
     (if RawQuery u = ''_escaped_fragment_='' then [''_escaped_fragment_'' \<mapsto> [[]]]
      else Map.empty)"

definition exampleParseRequestURI :: "string \<Rightarrow> string + URL" where
  "exampleParseRequestURI s =
     (if s = ''/article'' then Inr (pathURL ''/article'' [])
      else if s = [] then Inl ''parse \"\": empty url''
      else Inl ''parse: not an example'')"

definition exampleParse :: "string \<Rightarrow> string + URL" where
  "exampleParse s =
     (if s = ''http://service.prerender.io/http%3A%2F%2Fhost%2Farticle''
      then Inr \<lparr>Scheme = ''http'', Opaque = [], User = None, Host = ''service.prerender.io'',
                Path = ''/http://host/article'', RawPath = ''/http%3A%2F%2Fhost%2Farticle'',
                ForceQuery = False, RawQuery = [], Fragment = []\<rparr>
      else Inl ''parse: not an example'')"

definition exampleString :: "URL \<Rightarrow> string" where
  "exampleString u = Scheme u @ ''://'' @ Host u @ Path u"

definition exampleEnv :: "Response option \<times> string option \<Rightarrow> Env" where
  "exampleEnv outcome =
     \<lparr>ToLower = map asciiLower, Query = exampleQuery,
      ParseRequestURI = exampleParseRequestURI, Parse = exampleParse,
      URL_String = exampleString, BasicAuth = (\<lambda>u p. ''Basic Og==''),
      Do = (\<lambda>req2. outcome), Getenv = (\<lambda>name. []),
      DefaultServeMux = (\<lambda>w req. http_Error w ''404 page not found'' 404)\<rparr>"

definition exampleRequest :: "string \<Rightarrow> string \<Rightarrow> string \<Rightarrow> (string \<times> string) list \<Rightarrow> Request" where
  "exampleRequest m p q hs =
     \<lparr>Method = m, req_URL = pathURL p q,
      req_Header = map_of (map (\<lambda>(k, v). (k, [v])) hs), req_Host = ''host'',
      RequestURI = (if q = [] then p else p @ ''?'' @ q)\<rparr>"

definition freshWorld :: World where
  "freshWorld =
     \<lparr>rw = \<lparr>header = Map.empty, wroteHeader = False, status = 0, sentHeader = Map.empty,
             written = []\<rparr>,
      logs = [], stdout = [], bodyClosed = False\<rparr>"

definition botAssetRequest :: Request where
  "botAssetRequest =
     exampleRequest ''GET'' ''/assets/Logo.PNG'' ''_escaped_fragment_=''
       [(''User-Agent'', ''Twitterbot/1.0''), (''X-Bufferbot'', ''1'')]"

definition noAgentRequest :: Request where
  "noAgentRequest =
     exampleRequest ''GET'' ''/article'' ''_escaped_fragment_='' [(''X-Bufferbot'', ''1'')]"

definition postRequest :: Request where
  "postRequest =
     exampleRequest ''POST'' ''/article'' ''_escaped_fragment_=''
       [(''User-Agent'', ''Twitterbot/1.0'')]"

definition fragmentRequest :: Request where
  "fragmentRequest =
     exampleRequest ''GET'' ''/article'' ''_escaped_fragment_=''
       [(''User-Agent'', ''Mozilla/5.0'')]"

definition twitterRequest :: Request where
  "twitterRequest = exampleRequest ''GET'' ''/article'' [] [(''User-Agent'', ''Twitterbot/1.0'')]"

definition homeRequest :: Request where
  "homeRequest = exampleRequest ''GET'' ''/home'' [] [(''User-Agent'', ''Mozilla/5.0'')]"

definition cfVisitorRequest :: Request where
  \<open>cfVisitorRequest =
     exampleRequest ''GET'' ''/article'' []
       [(''User-Agent'', ''Twitterbot/1.0''), (''Cf-Visitor'', ''{"scheme":"https"}'')]\<close>

definition forwardedProtoRequest :: Request where
  "forwardedProtoRequest =
     exampleRequest ''GET'' ''/article'' []
       [(''User-Agent'', ''Twitterbot/1.0''), (''X-Forwarded-Proto'', ''https,1.2.3.4'')]"

definition exampleHosts :: "string \<Rightarrow> string \<Rightarrow> string \<Rightarrow> Request" where
  "exampleHosts a b c =
     \<lparr>Method = ''GET'', req_URL = (pathURL ''/article'' [])\<lparr>Host := b\<rparr>,
      req_Header = [''User-Agent'' \<mapsto> [''Twitterbot/1.0''], ''Host'' \<mapsto> [a]],
      req_Host = c, RequestURI = ''/article''\<rparr>"

text \<open>
  Three outcomes of the call to the rendering service: a refused connection, a redirect
  stopped by \<^verbatim>\<open>CheckRedirect\<close> (the 302 response together with the error that
  \<^verbatim>\<open>http.Client\<close> wraps around \<^verbatim>\<open>errors.New("Redirect")\<close>), and a rendered page.
\<close>

definition refusedOutcome :: "Response option \<times> string option" where
  \<open>refusedOutcome =
     (None,
      Some (''Get "http://service.prerender.io/http%3A%2F%2Fhost%2Farticle": ''
            @ ''dial tcp: lookup service.prerender.io: no such host''))\<close>

definition redirectOutcome :: "Response option \<times> string option" where
  \<open>redirectOutcome =
     (Some \<lparr>StatusCode = 302,
            resp_Header = [(''Location'', [''https://example.com/foo'']),
                           (''Set-Cookie'', [''a=1'', ''b=2''])],
            resp_Body = \<lparr>content = [], readError = None\<rparr>\<rparr>,
      Some ''Get "http://service.prerender.io/http%3A%2F%2Fhost%2Farticle": Redirect'')\<close>

definition pageOutcome :: "Response option \<times> string option" where
  "pageOutcome =
     (Some \<lparr>StatusCode = 200,
            resp_Header = [(''Content-Type'', [''text/html'']),
                           (''Cache-Control'', [''max-age=3600''])],
            resp_Body = \<lparr>content = ''<html></html>'', readError = None\<rparr>\<rparr>,
      None)"

section \<open>Auxiliary facts\<close>

subsection \<open>Strings and loops\<close>

lemmas strings_eval =
  strings_Contains_def strings_HasPrefix_def strings_HasSuffix_def
  sublist_Cons_right suffix_to_prefix

lemma strings_Contains_iff: "strings_Contains s t \<longleftrightarrow> (\<exists>p q. s = p @ t @ q)"
  by (auto simp add: strings_Contains_def sublist_def)

lemma strings_HasPrefix_iff: "strings_HasPrefix s t \<longleftrightarrow> (\<exists>rest. s = t @ rest)"
  by (auto simp add: strings_HasPrefix_def prefix_def)

lemma strings_HasSuffix_iff: "strings_HasSuffix s t \<longleftrightarrow> (\<exists>b. s = b @ t)"
  by (auto simp add: strings_HasSuffix_def suffix_def)

lemma isBot_loop_iff:
  "isBot_loop ua names \<longleftrightarrow> (\<exists>name\<in>set names. strings_Contains ua name)"
  by (induction names) auto

lemma containsIgnoredExtension_loop_iff:
  "containsIgnoredExtension_loop path names \<longleftrightarrow> (\<exists>name\<in>set names. strings_Contains path name)"
  by (induction names) auto

subsection \<open>The characters of an escaped string\<close>

lemma upperhex_digit:
  assumes "n < 16"
  shows "upperhex n \<in> set ''0123456789ABCDEF''"
  unfolding upperhex_def using assms by (intro nth_mem) simp

lemma of_char_less_256: "(of_char c :: nat) < 256"
  by (cases c) simp

lemma of_char_mem:
  assumes "(of_char c :: nat) \<in> set (map of_char cs)"
  shows "c \<in> set cs"
proof -
  from assms obtain c' where "c' \<in> set cs" and "(of_char c' :: nat) = of_char c"
    by auto
  then show ?thesis by simp
qed

lemma shouldEscape_kept:
  assumes "\<not> shouldEscape c"
  shows "c \<in> set ''abcdefghijklmnopqrstuvwxyzABCDEFGHIJKLMNOPQRSTUVWXYZ0123456789-_.~''"
proof -
  define n where "n = (of_char c :: nat)"
  from assms
  have "c \<in> set ''-_.~'' \<or> n \<in> {97..122} \<or> n \<in> {65..90} \<or> n \<in> {48..57}"
    by (auto simp add: shouldEscape_def Let_def n_def split: if_splits)
  then have "c \<in> set ''-_.~'' \<or> n \<in> set [97..<Suc 122] \<or> n \<in> set [65..<Suc 90]
               \<or> n \<in> set [48..<Suc 57]"
    unfolding atLeastAtMost_upt .
  then have "c \<in> set ''-_.~''
      \<or> n \<in> set (map of_char ''abcdefghijklmnopqrstuvwxyzABCDEFGHIJKLMNOPQRSTUVWXYZ0123456789'')"
    by (simp add: upt_rec)
  then consider (punct) "c \<in> set ''-_.~''"
    | (alnum) "(of_char c :: nat)
        \<in> set (map of_char ''abcdefghijklmnopqrstuvwxyzABCDEFGHIJKLMNOPQRSTUVWXYZ0123456789'')"
    unfolding n_def by blast
  then show ?thesis
  proof cases
    case punct
    then show ?thesis by auto
  next
    case alnum
    from of_char_mem [OF alnum] show ?thesis by auto
  qed
qed

lemma QueryEscape_chars:
  "set (QueryEscape s)
     \<subseteq> set ''abcdefghijklmnopqrstuvwxyzABCDEFGHIJKLMNOPQRSTUVWXYZ0123456789-_.~%+''"
  unfolding QueryEscape_def
proof (induction s)
  case Nil
  show ?case by simp
next
  case (Cons c s)
  have hi: "upperhex (of_char c div 16) \<in> set ''0123456789ABCDEF''"
    using of_char_less_256 [of c] by (intro upperhex_digit) (simp add: less_mult_imp_div_less)
  have lo: "upperhex (of_char c mod 16) \<in> set ''0123456789ABCDEF''"
    by (intro upperhex_digit) simp
  show ?case
  proof (cases "c = CHR '' ''")
    case True
    with Cons show ?thesis by simp
  next
    case False
    show ?thesis
    proof (cases "shouldEscape c")
      case True
      with False Cons hi lo show ?thesis by auto
    next
      case esc: False
      from shouldEscape_kept [OF esc] False esc Cons show ?thesis by auto
    qed
  qed
qed

subsection \<open>The constructor\<close>

lemma Handler_lists:
  "botUserAgents (Handler env app []) = crawlerUserAgents"
  "ignoredExtension (Handler env app []) = extensionsToIgnore"
  by (simp_all add: Handler_def Let_def)

lemma sub_Handler:
  "sub (Handler env app options) = Some (case app of None \<Rightarrow> DefaultServeMux env | Some a \<Rightarrow> a)"
proof -
  have "sub (applyOption opt h) = sub h" for opt h by (cases opt) simp_all
  then have "sub (fold applyOption opts h) = sub h" for opts h
    by (induction opts arbitrary: h) simp_all
  then show ?thesis
    by (cases app) (simp_all add: Handler_def Let_def)
qed

subsection \<open>The response writer, the log and the header loops\<close>

lemma http_Error_fresh:
  assumes "\<not> wroteHeader w"
  shows "wroteHeader (http_Error w msg code)"
    and "status (http_Error w msg code) = code"
    and "written (http_Error w msg code) = written w @ msg @ [CHR 0x0A]"
    and "sentHeader (http_Error w msg code) =
           (header w)(''Content-Type'' \<mapsto> [''text/plain; charset=utf-8''],
                      ''X-Content-Type-Options'' \<mapsto> [''nosniff''])"
  using assms by (simp_all add: http_Error_def WriteHeader_def Write_def Header_Set_def Let_def)

lemma logf_rw: "rw (logf h format arg w) = rw w"
  by (simp add: logf_def)

lemma logf_simps:
  "rw (logf h format arg w) = rw w"
  "logs (logf h format arg w) = (if log h = None then logs w else logs w @ [(format, arg)])"
  by (simp_all add: logf_def)

lemma fold_Header_Set:
  "fold (\<lambda>value hdr. Header_Set key value hdr) vals hdr =
     (if vals = [] then hdr else hdr(key \<mapsto> [last vals]))"
  by (induction vals arbitrary: hdr) (simp_all add: Header_Set_def)

lemma fold_Header_Add:
  "fold (\<lambda>value hdr. Header_Add key value hdr) vals hdr =
     (if vals = [] then hdr
      else hdr(key \<mapsto> (case hdr key of None \<Rightarrow> [] | Some vs \<Rightarrow> vs) @ vals))"
  by (induction vals arbitrary: hdr) (auto simp add: Header_Add_def)

lemma copySet_other:
  assumes "k \<notin> fst ` set entries"
  shows "copySet entries hdr k = hdr k"
  using assms by (induction entries arbitrary: hdr) (auto simp add: fold_Header_Set)

lemma copySet_key:
  assumes "distinct (map fst entries)" and "(k, vals) \<in> set entries" and "vals \<noteq> []"
  shows "copySet entries hdr k = Some [last vals]"
  using assms
proof (induction entries arbitrary: hdr)
  case Nil
  then show ?case by simp
next
  case (Cons entry entries)
  obtain k' vs' where entry: "entry = (k', vs')" by (cases entry)
  show ?case
  proof (cases "(k, vals) \<in> set entries")
    case True
    with Cons show ?thesis by simp
  next
    case False
    with Cons.prems entry have eq: "k' = k" "vs' = vals" and "k \<notin> fst ` set entries"
      by auto
    from this(3) have "copySet entries hdr' k = hdr' k" for hdr'
      by (rule copySet_other)
    with eq Cons.prems(3) show ?thesis
      by (simp add: entry fold_Header_Set)
  qed
qed

lemma copyAdd_other:
  assumes "k \<notin> fst ` set entries"
  shows "copyAdd entries hdr k = hdr k"
  using assms by (induction entries arbitrary: hdr) (auto simp add: fold_Header_Add)

lemma copyAdd_key:
  assumes "distinct (map fst entries)" and "(k, vals) \<in> set entries" and "vals \<noteq> []"
  shows "copyAdd entries hdr k = Some ((case hdr k of None \<Rightarrow> [] | Some vs \<Rightarrow> vs) @ vals)"
  using assms
proof (induction entries arbitrary: hdr)
  case Nil
  then show ?case by simp
next
  case (Cons entry entries)
  obtain k' vs' where entry: "entry = (k', vs')" by (cases entry)
  show ?case
  proof (cases "(k, vals) \<in> set entries")
    case True
    with Cons.prems entry have "k' \<noteq> k" by force
    with True Cons show ?thesis by (simp add: entry fold_Header_Add)
  next
    case False
    with Cons.prems entry have eq: "k' = k" "vs' = vals" and "k \<notin> fst ` set entries"
      by auto
    from this(3) have "copyAdd entries hdr' k = hdr' k" for hdr'
      by (rule copyAdd_other)
    with eq Cons.prems(3) show ?thesis
      by (simp add: entry fold_Header_Add)
  qed
qed

subsection \<open>The URL builder and the relay\<close>

lemma buildApiUrl_u_eq:
  assumes "ParseRequestURI env (RequestURI req) = Inr u"
  shows "buildApiUrl_u env req =
           (if spec_host req = [] then Inl ''undetectable host''
            else Inr (u\<lparr>Host := spec_host req,
                       Scheme :=
                         (if strings_Contains (Header_Get (req_Header req) CF_VISITOR) CF_HTTPS
                             \<or> strings_HasPrefix (Header_Get (req_Header req) X_FORWARDED_PROTO)
                                  X_FORWARDED_HTTPS
                          then ''https'' else ''http'')\<rparr>))"
  using assms by (simp add: buildApiUrl_u_def spec_host_def HTTP_HOST_def Let_def)

lemma getPrerenderedPage_relay:
  assumes "buildApiUrl env h req = Inr rawurl"
    and "http_NewRequest env ''GET'' rawurl = Inr req2"
  shows "getPrerenderedPage env h w req =
           relay h (logf h ''prerender: %q'' (ArgURL (req_URL req)) w)
             (Do env (prerenderRequest env h req req2))"
  using assms by (simp add: getPrerenderedPage_def Let_def)

text \<open>
  What the relay does with a stopped redirect and with a rendered page, for every response.
  After a redirect the client is sent status 301, no body, and the header map left by the
  \<^verbatim>\<open>Set\<close> loop: a name with several values keeps the last one (\<open>copySet_key\<close>).
  After a rendered page the client is sent the status and the body of the response, and
  the header map as it was before the \<^verbatim>\<open>Add\<close> loop ran: the loop changes the map only
  after the status line has gone out.
\<close>

lemma redirect_collapse:
  assumes "buildApiUrl env h req = Inr rawurl"
    and "http_NewRequest env ''GET'' rawurl = Inr req2"
    and "Do env (prerenderRequest env h req req2) = (Some resp, Some e)"
    and "strings_HasSuffix e ''Redirect''"
    and "\<not> wroteHeader (rw w)"
  shows "\<exists>w'. getPrerenderedPage env h w req = Inr w'
           \<and> wroteHeader (rw w') \<and> status (rw w') = 301
           \<and> written (rw w') = written (rw w)
           \<and> sentHeader (rw w') = copySet (resp_Header resp) (header (rw w))"
proof -
  let ?w = "logf h ''prerender: %q'' (ArgURL (req_URL req)) w"
  have "getPrerenderedPage env h w req = relay h ?w (Some resp, Some e)"
    using getPrerenderedPage_relay [OF assms(1,2)] assms(3) by simp
  then show ?thesis
    using assms(4,5)
    by (simp add: relay_def Let_def logf_simps WriteHeader_def Write_def)
qed

lemma normal_response_relayed:
  assumes "buildApiUrl env h req = Inr rawurl"
    and "http_NewRequest env ''GET'' rawurl = Inr req2"
    and "Do env (prerenderRequest env h req req2) = (Some resp, None)"
    and "readError (resp_Body resp) = None"
    and "\<not> wroteHeader (rw w)"
  shows "\<exists>w'. getPrerenderedPage env h w req = Inr w'
           \<and> wroteHeader (rw w') \<and> status (rw w') = StatusCode resp
           \<and> written (rw w') = written (rw w) @ content (resp_Body resp)
           \<and> sentHeader (rw w') = header (rw w)
           \<and> header (rw w') = copyAdd (resp_Header resp) (header (rw w))"
proof -
  let ?w = "logf h ''prerender: %q'' (ArgURL (req_URL req)) w"
  have "getPrerenderedPage env h w req = relay h ?w (Some resp, None)"
    using getPrerenderedPage_relay [OF assms(1,2)] assms(3) by simp
  then show ?thesis
    using assms(4,5)
    by (simp add: relay_def Let_def logf_simps WriteHeader_def Write_def)
qed

subsection \<open>The examples\<close>

lemma exampleEnv_simps:
  "ToLower (exampleEnv outcome) = map asciiLower"
  "Query (exampleEnv outcome) = exampleQuery"
  "ParseRequestURI (exampleEnv outcome) = exampleParseRequestURI"
  "Parse (exampleEnv outcome) = exampleParse"
  "URL_String (exampleEnv outcome) = exampleString"
  "Do (exampleEnv outcome) req2 = outcome"
  "Getenv (exampleEnv outcome) name = []"
  by (simp_all add: exampleEnv_def)

lemma Handler_exampleEnv:
  "prerenderServiceURL (Handler (exampleEnv outcome) app []) = const_prerenderServiceURL"
  "prerenderToken (Handler (exampleEnv outcome) app []) = []"
  "prerenderUsername (Handler (exampleEnv outcome) app []) = []"
  "prerenderPassword (Handler (exampleEnv outcome) app []) = []"
  "log (Handler (exampleEnv outcome) app []) = None"
  by (simp_all add: Handler_def exampleEnv_simps)

lemma freshWorld_simps:
  "wroteHeader (rw freshWorld) = False" "written (rw freshWorld) = []"
  "header (rw freshWorld) = Map.empty" "logs freshWorld = []"
  by (simp_all add: freshWorld_def)

lemma botAssetRequest_simps:
  "Method botAssetRequest = ''GET''"
  "UserAgent botAssetRequest = ''Twitterbot/1.0''"
  "Header_Get (req_Header botAssetRequest) ''X-Bufferbot'' = ''1''"
  "Path (req_URL botAssetRequest) = ''/assets/Logo.PNG''"
  "Query (exampleEnv outcome) (req_URL botAssetRequest) ''_escaped_fragment_'' = Some [[]]"
  by (simp_all add: botAssetRequest_def exampleRequest_def pathURL_def UserAgent_def
      Header_Get_def exampleEnv_simps exampleQuery_def)

lemma example_requests_simps:
  "Method noAgentRequest = ''GET''"
  "Header_Get (req_Header noAgentRequest) ''User-Agent'' = []"
  "Header_Get (req_Header noAgentRequest) ''X-Bufferbot'' = ''1''"
  "Query (exampleEnv outcome) (req_URL noAgentRequest) ''_escaped_fragment_'' = Some [[]]"
  "Method postRequest = ''POST''"
  "Header_Get (req_Header postRequest) ''User-Agent'' = ''Twitterbot/1.0''"
  "Path (req_URL postRequest) = ''/article''"
  "Query (exampleEnv outcome) (req_URL postRequest) ''_escaped_fragment_'' = Some [[]]"
  "Method fragmentRequest = ''GET''"
  "Header_Get (req_Header fragmentRequest) ''User-Agent'' = ''Mozilla/5.0''"
  "Path (req_URL fragmentRequest) = ''/article''"
  "Query (exampleEnv outcome) (req_URL fragmentRequest) ''_escaped_fragment_'' = Some [[]]"
  by (simp_all add: noAgentRequest_def postRequest_def fragmentRequest_def exampleRequest_def
      pathURL_def Header_Get_def exampleEnv_simps exampleQuery_def)

lemma article_not_ignored:
  "\<not> containsIgnoredExtension (exampleEnv outcome) (Handler (exampleEnv outcome) app [])
       ''/article''"
  by (simp add: containsIgnoredExtension_def Handler_lists exampleEnv_simps asciiLower_def
      extensionsToIgnore_def strings_eval)

lemma homeRequest_passes:
  "\<not> shouldShowPrerenderedPage (exampleEnv outcome) (Handler (exampleEnv outcome) app [])
       homeRequest"
  by (simp add: shouldShowPrerenderedPage_def homeRequest_def exampleRequest_def UserAgent_def
      Header_Get_def X_BUFFERBOT_def ESCAPED_FRAGMENT_def exampleEnv_simps exampleQuery_def
      pathURL_def isBot_def containsIgnoredExtension_def Handler_lists asciiLower_def
      crawlerUserAgents_def extensionsToIgnore_def strings_eval)

lemma twitterRequest_u:
  "buildApiUrl_u (exampleEnv outcome) twitterRequest =
     Inr ((pathURL ''/article'' [])\<lparr>Host := ''host'', Scheme := ''http''\<rparr>)"
  by (simp add: buildApiUrl_u_def twitterRequest_def exampleRequest_def exampleEnv_simps
      exampleParseRequestURI_def Header_Get_def HTTP_HOST_def CF_VISITOR_def CF_HTTPS_def
      X_FORWARDED_PROTO_def X_FORWARDED_HTTPS_def pathURL_def strings_eval)

lemma twitterRequest_rawurl:
  "buildApiUrl (exampleEnv outcome) (Handler (exampleEnv outcome) app []) twitterRequest =
     Inr ''http://service.prerender.io/http%3A%2F%2Fhost%2Farticle''"
  by (simp add: buildApiUrl_def twitterRequest_u Handler_exampleEnv const_prerenderServiceURL_def
      exampleEnv_simps exampleString_def pathURL_def QueryEscape_def shouldEscape_def
      upperhex_def strings_eval)

lemma twitterRequest_relay:
  "getPrerenderedPage (exampleEnv outcome) (Handler (exampleEnv outcome) app []) freshWorld
     twitterRequest
   = relay (Handler (exampleEnv outcome) app []) freshWorld outcome"
proof -
  let ?env = "exampleEnv outcome"
  obtain req2 where
    "http_NewRequest ?env ''GET'' ''http://service.prerender.io/http%3A%2F%2Fhost%2Farticle''
       = Inr req2"
    by (simp add: http_NewRequest_def exampleEnv_simps exampleParse_def)
  from getPrerenderedPage_relay [OF twitterRequest_rawurl this]
  show ?thesis by (simp add: exampleEnv_simps logf_def Handler_exampleEnv)
qed

lemma exampleHosts_parse:
  "ParseRequestURI (exampleEnv outcome) (RequestURI (exampleHosts a b c))
     = Inr (pathURL ''/article'' [])"
  by (simp add: exampleHosts_def exampleEnv_simps exampleParseRequestURI_def)

lemma exampleHosts_spec_host:
  "spec_host (exampleHosts ''a'' ''b'' ''c'') = ''a''"
  "spec_host (exampleHosts [] ''b'' ''c'') = ''b''"
  "spec_host (exampleHosts [] [] ''c'') = ''c''"
  "spec_host (exampleHosts [] [] []) = []"
  by (simp_all add: spec_host_def exampleHosts_def Header_Get_def pathURL_def)

lemma example_u:
  "buildApiUrl_u (exampleEnv outcome) cfVisitorRequest =
     Inr ((pathURL ''/article'' [])\<lparr>Host := ''host'', Scheme := ''https''\<rparr>)"
  "buildApiUrl_u (exampleEnv outcome) forwardedProtoRequest =
     Inr ((pathURL ''/article'' [])\<lparr>Host := ''host'', Scheme := ''https''\<rparr>)"
  by (simp_all add: buildApiUrl_u_def cfVisitorRequest_def forwardedProtoRequest_def
      exampleRequest_def exampleEnv_simps
      exampleParseRequestURI_def Header_Get_def HTTP_HOST_def CF_VISITOR_def CF_HTTPS_def
      X_FORWARDED_PROTO_def X_FORWARDED_HTTPS_def pathURL_def strings_eval)

section \<open>The classifier\<close>

text \<open>
  C1.  A request whose lower-cased path contains one of the configured ignored-extension
  substrings is passed through: \<open>shouldShowPrerenderedPage\<close> is false, also when the
  User-Agent is that of a bot, \<^verbatim>\<open>_escaped_fragment_\<close> is in the query or the
  \<^verbatim>\<open>X-Bufferbot\<close> header is set.  The theorem holds for every handler and request; the
  witness is a request for \<^verbatim>\<open>/assets/Logo.PNG\<close> that has all three.
\<close>

theorem ignored_extension_not_intercepted:
  assumes "\<exists>name\<in>set (ignoredExtension h).
             strings_Contains (ToLower env (Path (req_URL req))) name"
  shows "\<not> shouldShowPrerenderedPage env h req"
  using assms
  by (simp add: shouldShowPrerenderedPage_def containsIgnoredExtension_def
      containsIgnoredExtension_loop_iff Let_def)

theorem ignored_extension_not_intercepted_witness:
  "isBot (exampleEnv (None, None)) (Handler (exampleEnv (None, None)) None [])
     (UserAgent botAssetRequest)
   \<and> Query (exampleEnv (None, None)) (req_URL botAssetRequest) ''_escaped_fragment_'' = Some [[]]
   \<and> Header_Get (req_Header botAssetRequest) ''X-Bufferbot'' = ''1''
   \<and> ''.png'' \<in> set (ignoredExtension (Handler (exampleEnv (None, None)) None []))
   \<and> strings_Contains
        (ToLower (exampleEnv (None, None)) (Path (req_URL botAssetRequest))) ''.png''
   \<and> \<not> shouldShowPrerenderedPage (exampleEnv (None, None))
         (Handler (exampleEnv (None, None)) None []) botAssetRequest"
proof -
  let ?env = "exampleEnv (None, None)"
  let ?h = "Handler ?env None []"
  have low: "ToLower ?env (Path (req_URL botAssetRequest)) = ''/assets/logo.png''"
    by (simp add: botAssetRequest_simps exampleEnv_simps asciiLower_def)
  have ext: "''.png'' \<in> set (ignoredExtension ?h)"
    by (simp add: Handler_lists extensionsToIgnore_def)
  have sub: "strings_Contains (ToLower ?env (Path (req_URL botAssetRequest))) ''.png''"
    unfolding low by (simp add: strings_eval)
  have bot: "isBot ?env ?h (UserAgent botAssetRequest)"
    by (simp add: isBot_def Handler_lists botAssetRequest_simps exampleEnv_simps
        asciiLower_def crawlerUserAgents_def strings_eval)
  from ext sub
  have "\<exists>name\<in>set (ignoredExtension ?h).
          strings_Contains (ToLower ?env (Path (req_URL botAssetRequest))) name"
    by blast
  from ignored_extension_not_intercepted [OF this] bot ext sub show ?thesis
    by (simp add: botAssetRequest_simps)
qed

text \<open>
  C9.  A request with an empty User-Agent header, and a request whose method is not GET,
  is never intercepted, whatever its other headers, its query and the configuration.
\<close>

theorem empty_user_agent_or_non_GET_not_intercepted:
  assumes "Header_Get (req_Header req) ''User-Agent'' = [] \<or> Method req \<noteq> ''GET''"
  shows "\<not> shouldShowPrerenderedPage env h req"
  using assms by (auto simp add: shouldShowPrerenderedPage_def UserAgent_def Let_def)

theorem empty_user_agent_or_non_GET_not_intercepted_witness:
  "Header_Get (req_Header noAgentRequest) ''User-Agent'' = []
   \<and> Header_Get (req_Header noAgentRequest) ''X-Bufferbot'' = ''1''
   \<and> \<not> shouldShowPrerenderedPage (exampleEnv (None, None))
         (Handler (exampleEnv (None, None)) None []) noAgentRequest
   \<and> Method postRequest \<noteq> ''GET''
   \<and> Header_Get (req_Header postRequest) ''User-Agent'' = ''Twitterbot/1.0''
   \<and> \<not> shouldShowPrerenderedPage (exampleEnv (None, None))
         (Handler (exampleEnv (None, None)) None []) postRequest"
proof -
  have a: "Header_Get (req_Header noAgentRequest) ''User-Agent'' = []
           \<or> Method noAgentRequest \<noteq> ''GET''"
    by (simp add: example_requests_simps)
  have b: "Header_Get (req_Header postRequest) ''User-Agent'' = []
           \<or> Method postRequest \<noteq> ''GET''"
    by (simp add: example_requests_simps)
  from empty_user_agent_or_non_GET_not_intercepted [OF a]
    empty_user_agent_or_non_GET_not_intercepted [OF b]
  show ?thesis by (simp add: example_requests_simps)
qed

text \<open>
  C8, as stated: every request with \<^verbatim>\<open>_escaped_fragment_\<close> in its query and no
  ignored extension in its path is intercepted.  The classifier tests the User-Agent and
  the method first (lines 125 to 130), so the statement fails for a POST: the query
  parameter is present, the path \<^verbatim>\<open>/article\<close> has no ignored extension, and the
  request is passed through.
\<close>

theorem escaped_fragment_POST_counterexample:
  "Query (exampleEnv (None, None)) (req_URL postRequest) ''_escaped_fragment_'' = Some [[]]
   \<and> \<not> containsIgnoredExtension (exampleEnv (None, None))
         (Handler (exampleEnv (None, None)) None []) (Path (req_URL postRequest))
   \<and> \<not> shouldShowPrerenderedPage (exampleEnv (None, None))
         (Handler (exampleEnv (None, None)) None []) postRequest"
  by (simp add: example_requests_simps article_not_ignored shouldShowPrerenderedPage_def
      UserAgent_def)

text \<open>
  C8, amended: every GET request with a non-empty User-Agent header, with
  \<^verbatim>\<open>_escaped_fragment_\<close> in its query (at least one value, which may be the empty
  string) and with no configured ignored-extension substring in its lower-cased path is
  intercepted.
\<close>

theorem escaped_fragment_intercepted:
  assumes "Header_Get (req_Header req) ''User-Agent'' \<noteq> []"
    and "Method req = ''GET''"
    and "Query env (req_URL req) ''_escaped_fragment_'' = Some (v # vs)"
    and "\<not> (\<exists>name\<in>set (ignoredExtension h).
               strings_Contains (ToLower env (Path (req_URL req))) name)"
  shows "shouldShowPrerenderedPage env h req"
  using assms
  by (simp add: shouldShowPrerenderedPage_def UserAgent_def ESCAPED_FRAGMENT_def Let_def
      containsIgnoredExtension_def containsIgnoredExtension_loop_iff)

theorem escaped_fragment_intercepted_witness:
  "Header_Get (req_Header fragmentRequest) ''User-Agent'' \<noteq> []
   \<and> Method fragmentRequest = ''GET''
   \<and> Query (exampleEnv (None, None)) (req_URL fragmentRequest) ''_escaped_fragment_''
       = Some [[]]
   \<and> \<not> (\<exists>name\<in>set (ignoredExtension (Handler (exampleEnv (None, None)) None [])).
            strings_Contains
              (ToLower (exampleEnv (None, None)) (Path (req_URL fragmentRequest))) name)
   \<and> shouldShowPrerenderedPage (exampleEnv (None, None))
       (Handler (exampleEnv (None, None)) None []) fragmentRequest"
proof -
  let ?env = "exampleEnv (None, None)"
  let ?h = "Handler ?env None []"
  have ua: "Header_Get (req_Header fragmentRequest) ''User-Agent'' \<noteq> []"
    by (simp add: example_requests_simps)
  have m: "Method fragmentRequest = ''GET''"
    by (simp add: example_requests_simps)
  have q: "Query ?env (req_URL fragmentRequest) ''_escaped_fragment_'' = Some ([] # [])"
    by (simp add: example_requests_simps)
  have ext: "\<not> (\<exists>name\<in>set (ignoredExtension ?h).
                 strings_Contains (ToLower ?env (Path (req_URL fragmentRequest))) name)"
    using article_not_ignored [of "(None, None)" None]
    by (simp add: containsIgnoredExtension_def containsIgnoredExtension_loop_iff
        example_requests_simps)
  from escaped_fragment_intercepted [OF ua m q ext] ua m q ext show ?thesis
    by simp
qed

section \<open>The URL builder\<close>

text \<open>
  C5.  Once the request URI has parsed (the first step of \<^verbatim>\<open>buildApiUrl\<close>, which
  returns the parse error otherwise), the host of the reconstructed URL is the
  \<^verbatim>\<open>Host\<close> header if it is not empty, otherwise the host of the request's URL if it is
  not empty, otherwise the host field of the request; nothing but host and scheme of the
  parsed URL is changed.  When all three are empty the builder fails with
  \<^verbatim>\<open>undetectable host\<close>, and \<open>getPrerenderedPage\<close> answers a client to which
  nothing was written yet with status 500.
\<close>

theorem host_resolution_order:
  assumes "ParseRequestURI env (RequestURI req) = Inr u"
  shows "(spec_host req \<noteq> [] \<longrightarrow>
            (\<exists>sch. buildApiUrl_u env req = Inr (u\<lparr>Host := spec_host req, Scheme := sch\<rparr>)))
       \<and> (spec_host req = [] \<longrightarrow>
            buildApiUrl_u env req = Inl ''undetectable host''
          \<and> buildApiUrl env h req = Inl ''undetectable host''
          \<and> (\<not> wroteHeader (rw w) \<longrightarrow>
               (\<exists>w'. getPrerenderedPage env h w req = Inr w'
                    \<and> wroteHeader (rw w') \<and> status (rw w') = 500)))"
proof (cases "spec_host req = []")
  case True
  have u: "buildApiUrl_u env req = Inl ''undetectable host''"
    using buildApiUrl_u_eq [OF assms] True by simp
  then have b: "buildApiUrl env h req = Inl ''undetectable host''"
    by (simp add: buildApiUrl_def)
  have "\<exists>w'. getPrerenderedPage env h w req = Inr w'
             \<and> wroteHeader (rw w') \<and> status (rw w') = 500" if "\<not> wroteHeader (rw w)"
    using that b
    by (simp add: getPrerenderedPage_def Let_def logf_rw http_Error_fresh
        StatusInternalServerError_def)
  with True u b show ?thesis by simp
next
  case False
  with buildApiUrl_u_eq [OF assms] show ?thesis by auto
qed

theorem host_resolution_order_witness:
  "ParseRequestURI (exampleEnv (None, None)) (RequestURI (exampleHosts ''a'' ''b'' ''c''))
     = Inr (pathURL ''/article'' [])
   \<and> map_sum id Host (buildApiUrl_u (exampleEnv (None, None)) (exampleHosts ''a'' ''b'' ''c''))
       = Inr ''a''
   \<and> map_sum id Host (buildApiUrl_u (exampleEnv (None, None)) (exampleHosts [] ''b'' ''c''))
       = Inr ''b''
   \<and> map_sum id Host (buildApiUrl_u (exampleEnv (None, None)) (exampleHosts [] [] ''c''))
       = Inr ''c''
   \<and> buildApiUrl (exampleEnv (None, None)) (Handler (exampleEnv (None, None)) None [])
         (exampleHosts [] [] [])
       = Inl ''undetectable host''
   \<and> clientResponse
         (getPrerenderedPage (exampleEnv (None, None))
            (Handler (exampleEnv (None, None)) None []) freshWorld (exampleHosts [] [] []))
         []
       = Some (500, [], ''Internal server error'' @ [CHR 0x0A])"
proof -
  let ?env = "exampleEnv (None, None)"
  let ?h = "Handler ?env None []"
  note order = host_resolution_order [where h = ?h and w = freshWorld]
  have a: "map_sum id Host (buildApiUrl_u ?env (exampleHosts ''a'' ''b'' ''c'')) = Inr ''a''"
    using order [OF exampleHosts_parse [of "(None, None)" "''a''" "''b''" "''c''"]] by (auto simp add: exampleHosts_spec_host)
  have b: "map_sum id Host (buildApiUrl_u ?env (exampleHosts [] ''b'' ''c'')) = Inr ''b''"
    using order [OF exampleHosts_parse [of "(None, None)" "[]" "''b''" "''c''"]] by (auto simp add: exampleHosts_spec_host)
  have c: "map_sum id Host (buildApiUrl_u ?env (exampleHosts [] [] ''c'')) = Inr ''c''"
    using order [OF exampleHosts_parse [of "(None, None)" "[]" "[]" "''c''"]] by (auto simp add: exampleHosts_spec_host)
  from order [OF exampleHosts_parse [of "(None, None)" "[]" "[]" "[]"]] obtain w' where
    d: "buildApiUrl ?env ?h (exampleHosts [] [] []) = Inl ''undetectable host''"
    and w': "getPrerenderedPage ?env ?h freshWorld (exampleHosts [] [] []) = Inr w'"
      "wroteHeader (rw w')" "status (rw w') = 500"
    by (auto simp add: exampleHosts_spec_host freshWorld_simps)
  have "written (rw w') = ''Internal server error'' @ [CHR 0x0A]"
    using w'(1) d
    by (auto simp add: getPrerenderedPage_def Let_def logf_simps http_Error_fresh
        freshWorld_simps)
  with w' have e: "clientResponse (getPrerenderedPage ?env ?h freshWorld (exampleHosts [] [] [])) []
      = Some (500, [], ''Internal server error'' @ [CHR 0x0A])"
    by (simp add: clientResponse_def)
  from a b c d e exampleHosts_parse show ?thesis by simp
qed

text \<open>
  C6.  The scheme of the reconstructed URL is \<^verbatim>\<open>https\<close> exactly when the value of the
  \<^verbatim>\<open>Cf-Visitor\<close> header contains \<^verbatim>\<open>"scheme":"https"\<close> or the value of the
  \<^verbatim>\<open>X-Forwarded-Proto\<close> header starts with \<^verbatim>\<open>https,\<close>; it is \<^verbatim>\<open>http\<close> in every
  other case.
\<close>

theorem scheme_https_iff:
  assumes "buildApiUrl_u env req = Inr u'"
  shows \<open>Scheme u' =
          (if (\<exists>p q. Header_Get (req_Header req) ''Cf-Visitor'' = p @ ''"scheme":"https"'' @ q)
              \<or> (\<exists>rest. Header_Get (req_Header req) ''X-Forwarded-Proto'' = ''https,'' @ rest)
           then ''https'' else ''http'')\<close>
proof -
  obtain u where p: "ParseRequestURI env (RequestURI req) = Inr u"
    using assms by (cases "ParseRequestURI env (RequestURI req)") (simp_all add: buildApiUrl_u_def)
  have c: "strings_Contains s t \<longleftrightarrow> (\<exists>p q. s = p @ t @ q)" for s t :: string
    by (auto simp add: strings_Contains_def sublist_def)
  have q: "strings_HasPrefix s t \<longleftrightarrow> (\<exists>rest. s = t @ rest)" for s t :: string
    by (auto simp add: strings_HasPrefix_def prefix_def)
  from buildApiUrl_u_eq [OF p] assms show ?thesis
    by (auto simp add: c q CF_VISITOR_def CF_HTTPS_def X_FORWARDED_PROTO_def
        X_FORWARDED_HTTPS_def split: if_splits)
qed

theorem scheme_https_iff_witness:
  "buildApiUrl_u (exampleEnv (None, None)) cfVisitorRequest =
     Inr ((pathURL ''/article'' [])\<lparr>Host := ''host'', Scheme := ''https''\<rparr>)
   \<and> buildApiUrl_u (exampleEnv (None, None)) forwardedProtoRequest =
     Inr ((pathURL ''/article'' [])\<lparr>Host := ''host'', Scheme := ''https''\<rparr>)
   \<and> buildApiUrl_u (exampleEnv (None, None)) twitterRequest =
     Inr ((pathURL ''/article'' [])\<lparr>Host := ''host'', Scheme := ''http''\<rparr>)
   \<and> strings_Contains (Header_Get (req_Header cfVisitorRequest) ''Cf-Visitor'') CF_HTTPS
   \<and> strings_HasPrefix (Header_Get (req_Header forwardedProtoRequest) ''X-Forwarded-Proto'')
        ''https,''
   \<and> \<not> strings_Contains (Header_Get (req_Header twitterRequest) ''Cf-Visitor'') CF_HTTPS
   \<and> \<not> strings_HasPrefix (Header_Get (req_Header twitterRequest) ''X-Forwarded-Proto'')
        ''https,''"
proof -
  have hdrs:
    "strings_Contains (Header_Get (req_Header cfVisitorRequest) ''Cf-Visitor'') CF_HTTPS"
    "strings_HasPrefix (Header_Get (req_Header forwardedProtoRequest) ''X-Forwarded-Proto'')
        ''https,''"
    "\<not> strings_Contains (Header_Get (req_Header twitterRequest) ''Cf-Visitor'') CF_HTTPS"
    "\<not> strings_HasPrefix (Header_Get (req_Header twitterRequest) ''X-Forwarded-Proto'')
        ''https,''"
    by (simp_all add: cfVisitorRequest_def forwardedProtoRequest_def twitterRequest_def
        exampleRequest_def Header_Get_def CF_HTTPS_def strings_eval)
  from scheme_https_iff [OF example_u(1) [of "(None, None)"]]
    scheme_https_iff [OF example_u(2) [of "(None, None)"]]
    scheme_https_iff [OF twitterRequest_u [of "(None, None)"]]
    example_u [of "(None, None)"] twitterRequest_u [of "(None, None)"] hdrs
  show ?thesis by simp
qed

text \<open>
  C7.  The URL that is called is the configured service URL, then one \<^verbatim>\<open>/\<close> if and
  only if the service URL does not end in one, then \<^verbatim>\<open>url.QueryEscape\<close> of the
  printed reconstructed URL.  The witness is the specification's example, with the
  default service URL (which ends in a slash) and with one that does not.
\<close>

theorem rawurl_shape:
  assumes "buildApiUrl_u env req = Inr u'"
  shows "buildApiUrl env h req =
           Inr (prerenderServiceURL h
                @ (if (\<exists>b. prerenderServiceURL h = b @ ''/'') then [] else ''/'')
                @ QueryEscape (URL_String env u'))"
  using assms
  by (auto simp add: buildApiUrl_def strings_HasSuffix_def suffix_def Let_def)

theorem rawurl_shape_witness:
  "buildApiUrl_u (exampleEnv (None, None)) twitterRequest =
     Inr ((pathURL ''/article'' [])\<lparr>Host := ''host'', Scheme := ''http''\<rparr>)
   \<and> buildApiUrl (exampleEnv (None, None)) (Handler (exampleEnv (None, None)) None [])
       twitterRequest
     = Inr ''http://service.prerender.io/http%3A%2F%2Fhost%2Farticle''
   \<and> buildApiUrl (exampleEnv (None, None))
       (Handler (exampleEnv (None, None)) None [ServiceURL ''http://localhost:3000''])
       twitterRequest
     = Inr ''http://localhost:3000/http%3A%2F%2Fhost%2Farticle''"
proof -
  let ?env = "exampleEnv (None, None)"
  have enc: "QueryEscape (URL_String ?env
               ((pathURL ''/article'' [])\<lparr>Host := ''host'', Scheme := ''http''\<rparr>))
             = ''http%3A%2F%2Fhost%2Farticle''"
    by (simp add: exampleEnv_simps exampleString_def pathURL_def QueryEscape_def
        shouldEscape_def upperhex_def)
  have base1: "prerenderServiceURL (Handler ?env None []) = ''http://service.prerender.io'' @ ''/''"
    by (simp add: Handler_exampleEnv const_prerenderServiceURL_def)
  have base2: "prerenderServiceURL (Handler ?env None [ServiceURL ''http://localhost:3000''])
                 = ''http://localhost:3000''"
    by (simp add: Handler_def exampleEnv_simps)
  have slash2: "\<not> (\<exists>b. ''http://localhost:3000'' = b @ ''/'')"
    using strings_HasSuffix_iff [of "''http://localhost:3000''" "''/''"]
    by (simp add: strings_eval)
  from rawurl_shape [OF twitterRequest_u, of "(None, None)" "Handler ?env None []"]
  have one: "buildApiUrl ?env (Handler ?env None []) twitterRequest
     = Inr ''http://service.prerender.io/http%3A%2F%2Fhost%2Farticle''"
    unfolding enc base1 by simp
  from rawurl_shape [OF twitterRequest_u, of "(None, None)"
      "Handler ?env None [ServiceURL ''http://localhost:3000'']"]
  have two: "buildApiUrl ?env (Handler ?env None [ServiceURL ''http://localhost:3000''])
       twitterRequest
     = Inr ''http://localhost:3000/http%3A%2F%2Fhost%2Farticle''"
    unfolding enc base2 using slash2 by simp
  from one two twitterRequest_u [of "(None, None)"] show ?thesis by simp
qed

section \<open>The relay\<close>

text \<open>
  C2.  A redirect of the rendering service is answered with status 301 and an empty body
  whatever the status of the redirect, and its header is copied before the status is
  written; but the copy loop calls \<^verbatim>\<open>Set\<close> for every value, where the loop for a
  rendered page calls \<^verbatim>\<open>Add\<close>, so each call overwrites the one before and a header
  name with several values reaches the client with its last value only.  At a 302 with
  one \<^verbatim>\<open>Location\<close> and two \<^verbatim>\<open>Set-Cookie\<close> values the client receives the
  \<^verbatim>\<open>Location\<close> and the second cookie; the first cookie is lost.
\<close>

theorem redirect_keeps_last_value_only:
  "clientResponse
     (getPrerenderedPage (exampleEnv redirectOutcome)
        (Handler (exampleEnv redirectOutcome) None []) freshWorld twitterRequest)
     [''Location'', ''Set-Cookie'']
   = Some (301, [(''Location'', Some [''https://example.com/foo'']),
                 (''Set-Cookie'', Some [''b=2''])], [])"
  unfolding twitterRequest_relay
  by (simp add: relay_def redirectOutcome_def clientResponse_def freshWorld_def Let_def
      WriteHeader_def Write_def Header_Set_def strings_eval)

theorem redirect_keeps_last_value_only_witness:
  "strings_HasSuffix (the (snd redirectOutcome)) ''Redirect''
   \<and> map_of (resp_Header (the (fst redirectOutcome))) ''Set-Cookie'' = Some [''a=1'', ''b=2'']
   \<and> clientResponse
       (getPrerenderedPage (exampleEnv redirectOutcome)
          (Handler (exampleEnv redirectOutcome) None []) freshWorld twitterRequest)
       [''Location'', ''Set-Cookie'']
     \<noteq> Some (301, [(''Location'', Some [''https://example.com/foo'']),
                   (''Set-Cookie'', Some [''a=1'', ''b=2''])], [])"
  using redirect_keeps_last_value_only
  by (simp add: redirectOutcome_def strings_eval)

text \<open>
  C3, as stated: when the call fails for another reason than the stopped redirect, status
  500 is returned and no body is written.  The relay answers through \<^verbatim>\<open>http.Error\<close>,
  which writes its message: when the host of the rendering service cannot be resolved the
  client receives status 500 and the body \<^verbatim>\<open>Internal server error\<close> followed by a
  newline, not an empty body.
\<close>

theorem transport_failure_body_counterexample:
  "\<not> strings_HasSuffix (the (snd refusedOutcome)) ''Redirect''
   \<and> clientResponse
       (getPrerenderedPage (exampleEnv refusedOutcome)
          (Handler (exampleEnv refusedOutcome) None []) freshWorld twitterRequest)
       []
     = Some (500, [], ''Internal server error'' @ [CHR 0x0A])"
  unfolding twitterRequest_relay
  by (simp add: relay_def refusedOutcome_def clientResponse_def freshWorld_def Let_def
      http_Error_def WriteHeader_def Write_def Header_Set_def logf_def Handler_exampleEnv
      StatusInternalServerError_def strings_eval)

text \<open>
  C3, amended: when the call fails with an error whose message does not end in
  \<^verbatim>\<open>Redirect\<close> (the test by which the relay tells the stopped redirect from other
  failures), and nothing was written to the client yet, the relay logs the error if a
  logger is configured and answers with status 500, the two header fields of
  \<^verbatim>\<open>http.Error\<close> and the plain-text body \<^verbatim>\<open>Internal server error\<close> followed by a
  newline.  Nothing of a response of the rendering service is written.
\<close>

theorem transport_failure_500:
  assumes "buildApiUrl env h req = Inr rawurl"
    and "http_NewRequest env ''GET'' rawurl = Inr req2"
    and "Do env (prerenderRequest env h req req2) = (resp, Some e)"
    and "\<not> strings_HasSuffix e ''Redirect''"
    and "\<not> wroteHeader (rw w)"
  shows "\<exists>w'. getPrerenderedPage env h w req = Inr w'
           \<and> wroteHeader (rw w') \<and> status (rw w') = 500
           \<and> written (rw w') = written (rw w) @ ''Internal server error'' @ [CHR 0x0A]
           \<and> sentHeader (rw w') =
               (header (rw w))(''Content-Type'' \<mapsto> [''text/plain; charset=utf-8''],
                               ''X-Content-Type-Options'' \<mapsto> [''nosniff''])
           \<and> logs w' =
               (if log h = None then logs w
                else logs w @ [(''prerender: %q'', ArgURL (req_URL req)),
                               (''prerender error: %s'', ArgError e)])"
proof -
  let ?w = "logf h ''prerender: %q'' (ArgURL (req_URL req)) w"
  have fresh: "\<not> wroteHeader (rw (logf h ''prerender error: %s'' (ArgError e) ?w))"
    using assms(5) by (simp add: logf_simps)
  have "getPrerenderedPage env h w req = relay h ?w (resp, Some e)"
    using getPrerenderedPage_relay [OF assms(1,2)] assms(3) by simp
  also have "\<dots> = Inr ((logf h ''prerender error: %s'' (ArgError e) ?w)
      \<lparr>rw := http_Error (rw (logf h ''prerender error: %s'' (ArgError e) ?w))
               ''Internal server error'' StatusInternalServerError\<rparr>)"
    using assms(4) by (simp add: relay_def Let_def)
  finally show ?thesis
    using fresh
    by (simp add: http_Error_fresh StatusInternalServerError_def logf_simps)
qed

theorem transport_failure_500_witness:
  "buildApiUrl (exampleEnv refusedOutcome) (Handler (exampleEnv refusedOutcome) None [])
     twitterRequest
     = Inr ''http://service.prerender.io/http%3A%2F%2Fhost%2Farticle''
   \<and> Do (exampleEnv refusedOutcome)
        (prerenderRequest (exampleEnv refusedOutcome)
           (Handler (exampleEnv refusedOutcome) None []) twitterRequest
           \<lparr>out_Method = ''GET'',
            out_URL = \<lparr>Scheme = ''http'', Opaque = [], User = None,
                       Host = ''service.prerender.io'', Path = ''/http://host/article'',
                       RawPath = ''/http%3A%2F%2Fhost%2Farticle'', ForceQuery = False,
                       RawQuery = [], Fragment = []\<rparr>,
            out_Header = Map.empty\<rparr>)
     = (None, snd refusedOutcome)
   \<and> snd refusedOutcome \<noteq> None
   \<and> \<not> strings_HasSuffix (the (snd refusedOutcome)) ''Redirect''
   \<and> \<not> wroteHeader (rw freshWorld)
   \<and> clientResponse
       (getPrerenderedPage (exampleEnv refusedOutcome)
          (Handler (exampleEnv refusedOutcome) None []) freshWorld twitterRequest)
       [''Content-Type'', ''X-Content-Type-Options'']
     = Some (500, [(''Content-Type'', Some [''text/plain; charset=utf-8'']),
                   (''X-Content-Type-Options'', Some [''nosniff''])],
             ''Internal server error'' @ [CHR 0x0A])"
proof -
  let ?env = "exampleEnv refusedOutcome"
  let ?h = "Handler ?env None []"
  let ?req2 = "\<lparr>out_Method = ''GET'',
            out_URL = \<lparr>Scheme = ''http'', Opaque = [], User = None,
                       Host = ''service.prerender.io'', Path = ''/http://host/article'',
                       RawPath = ''/http%3A%2F%2Fhost%2Farticle'', ForceQuery = False,
                       RawQuery = [], Fragment = []\<rparr>,
            out_Header = Map.empty\<rparr>"
  define e where "e = the (snd refusedOutcome)"
  have e: "refusedOutcome = (None, Some e)"
    by (simp add: e_def refusedOutcome_def)
  have new: "http_NewRequest ?env ''GET''
               ''http://service.prerender.io/http%3A%2F%2Fhost%2Farticle'' = Inr ?req2"
    by (simp add: http_NewRequest_def exampleEnv_simps exampleParse_def)
  have do: "Do ?env (prerenderRequest ?env ?h twitterRequest ?req2) = (None, Some e)"
    by (simp add: exampleEnv_simps e)
  have suf: "\<not> strings_HasSuffix e ''Redirect''"
    unfolding e_def by (simp add: refusedOutcome_def strings_eval)
  have fresh: "\<not> wroteHeader (rw freshWorld)"
    by (simp add: freshWorld_simps)
  from transport_failure_500 [OF twitterRequest_rawurl new do suf fresh]
  obtain w' where "getPrerenderedPage ?env ?h freshWorld twitterRequest = Inr w'"
    and "wroteHeader (rw w')" and "status (rw w') = 500"
    and "written (rw w') = written (rw freshWorld) @ ''Internal server error'' @ [CHR 0x0A]"
    and "sentHeader (rw w') =
           (header (rw freshWorld))(''Content-Type'' \<mapsto> [''text/plain; charset=utf-8''],
                                     ''X-Content-Type-Options'' \<mapsto> [''nosniff''])"
    by blast
  then have "clientResponse (getPrerenderedPage ?env ?h freshWorld twitterRequest)
       [''Content-Type'', ''X-Content-Type-Options'']
     = Some (500, [(''Content-Type'', Some [''text/plain; charset=utf-8'']),
                   (''X-Content-Type-Options'', Some [''nosniff''])],
             ''Internal server error'' @ [CHR 0x0A])"
    by (simp add: clientResponse_def freshWorld_simps)
  with twitterRequest_rawurl [of refusedOutcome None] do suf fresh show ?thesis
    by (simp add: e)
qed

text \<open>
  C4.  For a rendered page the relay writes the status of the response, then adds the
  response's header fields to the header map of the writer, then writes the body.  The
  status line goes out with the header map as it is when \<^verbatim>\<open>WriteHeader\<close> is called,
  so the fields added afterwards are not sent: at a 200 response with
  \<^verbatim>\<open>Cache-Control: max-age=3600\<close> the client receives status 200 and the body, and
  no \<^verbatim>\<open>Cache-Control\<close>.  The redirect branch and \<^verbatim>\<open>http.Error\<close> fill the map
  before they write the status.
\<close>

theorem normal_response_headers_not_sent:
  "clientResponse
     (getPrerenderedPage (exampleEnv pageOutcome)
        (Handler (exampleEnv pageOutcome) None []) freshWorld twitterRequest)
     [''Cache-Control'']
   = Some (200, [(''Cache-Control'', None)], ''<html></html>'')"
  unfolding twitterRequest_relay
  by (simp add: relay_def pageOutcome_def clientResponse_def freshWorld_def Let_def
      WriteHeader_def Write_def Header_Add_def)

theorem normal_response_headers_not_sent_witness:
  "snd pageOutcome = None
   \<and> map_of (resp_Header (the (fst pageOutcome))) ''Cache-Control'' = Some [''max-age=3600'']
   \<and> clientResponse
       (getPrerenderedPage (exampleEnv pageOutcome)
          (Handler (exampleEnv pageOutcome) None []) freshWorld twitterRequest)
       [''Cache-Control'']
     \<noteq> Some (200, [(''Cache-Control'', Some [''max-age=3600''])], ''<html></html>'')"
  using normal_response_headers_not_sent
  by (simp add: pageOutcome_def)

section \<open>The constructor\<close>

text \<open>
  C10.  Given a nil application handler, \<^verbatim>\<open>Handler\<close> stores
  \<^verbatim>\<open>http.DefaultServeMux\<close> in \<open>sub\<close>, whatever the options (no option touches
  \<open>sub\<close>); a request that is passed through is then served by the default mux and never
  reaches a nil handler.
\<close>

theorem nil_app_served_by_DefaultServeMux:
  "sub (Handler env None options) = Some (DefaultServeMux env)
   \<and> (\<not> shouldShowPrerenderedPage env (Handler env None options) req \<longrightarrow>
        ServeHTTP env (Handler env None options) w req
          = Inr (w\<lparr>rw := DefaultServeMux env (rw w) req\<rparr>))"
  by (simp add: ServeHTTP_def sub_Handler)

theorem nil_app_served_by_DefaultServeMux_witness:
  "\<not> shouldShowPrerenderedPage (exampleEnv (None, None))
       (Handler (exampleEnv (None, None)) None []) homeRequest
   \<and> ServeHTTP (exampleEnv (None, None)) (Handler (exampleEnv (None, None)) None [])
       freshWorld homeRequest
     = Inr (freshWorld\<lparr>rw := DefaultServeMux (exampleEnv (None, None)) (rw freshWorld)
                                 homeRequest\<rparr>)"
  using nil_app_served_by_DefaultServeMux
          [of "exampleEnv (None, None)" "[]" homeRequest freshWorld]
    homeRequest_passes [of "(None, None)" None]
  by simp

end
